theory Spec2Isabelle
  imports Complex_Main
begin

section \<open>Python strings\<close>

text \<open>
  A Python \<open>str\<close> is a sequence of code points. It is modelled as a HOL
  \<open>string\<close>, each \<open>char\<close> standing for the code point of the same
  number (U+0000 to U+00FF). Every character the program tests for is ASCII.
\<close>

text \<open>\<open>str.isspace\<close> for one character: the code points below U+0100 that Python
  counts as whitespace.\<close>

definition isspace :: "char \<Rightarrow> bool" where
  "isspace c = (c \<in> set [CHR 0x09, CHR 0x0A, CHR 0x0B, CHR 0x0C, CHR 0x0D,
                          CHR 0x1C, CHR 0x1D, CHR 0x1E, CHR 0x1F, CHR 0x20,
                          CHR 0x85, CHR 0xA0])"

text \<open>\<open>s.rstrip(chars)\<close>: drop every trailing character that occurs in
  \<open>chars\<close>.\<close>

definition rstrip_chars :: "string \<Rightarrow> string \<Rightarrow> string" where
  "rstrip_chars chars s = rev (dropWhile (\<lambda>c. c \<in> set chars) (rev s))"

text \<open>\<open>s.strip()\<close>: drop leading and trailing whitespace.\<close>

definition strip :: "string \<Rightarrow> string" where
  "strip s = rev (dropWhile isspace (rev (dropWhile isspace s)))"

text \<open>\<open>s.startswith(p)\<close>.\<close>

definition startswith :: "string \<Rightarrow> string \<Rightarrow> bool" where
  "startswith s p = (take (length p) s = p)"

text \<open>\<open>s.find(c)\<close> and \<open>s.rfind(c)\<close> for a one-character \<open>c\<close>; Python's
  \<open>-1\<close> is \<open>None\<close>. \<open>s.find(c, start)\<close> is \<open>str_find_from\<close>.\<close>

definition str_find :: "char \<Rightarrow> string \<Rightarrow> nat option" where
  "str_find c s = (if c \<in> set s then Some (length (takeWhile (\<lambda>x. x \<noteq> c) s)) else None)"

definition str_find_from :: "char \<Rightarrow> string \<Rightarrow> nat \<Rightarrow> nat option" where
  "str_find_from c s start = map_option (\<lambda>k. start + k) (str_find c (drop start s))"

definition str_rfind :: "char \<Rightarrow> string \<Rightarrow> nat option" where
  "str_rfind c s =
     (if c \<in> set s then Some (length s - Suc (length (takeWhile (\<lambda>x. x \<noteq> c) (rev s))))
      else None)"

text \<open>\<open>a, b = s.split(c, 1)\<close> for a string \<open>s\<close> that contains \<open>c\<close>.\<close>

definition split1 :: "char \<Rightarrow> string \<Rightarrow> string \<times> string" where
  "split1 c s = (case str_find c s of
                   None \<Rightarrow> (s, [])
                 | Some i \<Rightarrow> (take i s, drop (Suc i) s))"

text \<open>\<open>sep.join(xs)\<close>.\<close>

fun join :: "string \<Rightarrow> string list \<Rightarrow> string" where
  "join sep [] = []"
| "join sep [x] = x"
| "join sep (x # y # ys) = x @ sep @ join sep (y # ys)"

text \<open>\<open>str(n)\<close> for an integer: decimal digits, a minus sign when negative.\<close>

definition digit_char :: "nat \<Rightarrow> char" where
  "digit_char d = ''0123456789'' ! d"

fun str_nat :: "nat \<Rightarrow> string" where
  "str_nat n = (if n < 10 then [digit_char n] else str_nat (n div 10) @ [digit_char (n mod 10)])"

declare str_nat.simps [simp del]

definition str_int :: "int \<Rightarrow> string" where
  "str_int i = (if i < 0 then CHR ''-'' # str_nat (nat (- i)) else str_nat (nat i))"

text \<open>\<open>c.lower()\<close> on an ASCII character.\<close>

definition ascii_upper_chars :: string where
  "ascii_upper_chars = ''ABCDEFGHIJKLMNOPQRSTUVWXYZ''"

definition ascii_lower_chars :: string where
  "ascii_lower_chars = ''abcdefghijklmnopqrstuvwxyz''"

definition lower_char :: "char \<Rightarrow> char" where
  "lower_char c = (case map_of (zip ascii_upper_chars ascii_lower_chars) c of
                     None \<Rightarrow> c
                   | Some l \<Rightarrow> l)"

section \<open>Exceptions\<close>

text \<open>An exception is its class and its \<open>str()\<close>; a function that can raise returns
  \<open>py_exception + 'a\<close>, \<open>Inl\<close> being the raise.\<close>

datatype exc_class =
    FileNotFoundError | OSError | UnicodeDecodeError | ValueError | TypeError | CsvError

datatype py_exception = Raise (exc_cls: exc_class) (exc_str: string)

section \<open>\<open>normalize_domain\<close>\<close>

definition normalize_domain :: "string \<Rightarrow> string" where
  "normalize_domain domain0 =
     (let dmn = strip domain0 in
      if dmn = [] then []
      else if startswith dmn ''http://'' \<or> startswith dmn ''https://''
        then rstrip_chars ''/'' dmn
      else ''https://'' @ rstrip_chars ''/'' dmn)"

section \<open>\<open>urllib.parse\<close> (CPython 3.11)\<close>

text \<open>
  \<open>build_llms_url\<close> calls \<open>urlparse\<close> and \<open>urlunparse\<close> of the standard
  library. They are transcribed here from \<open>urllib/parse.py\<close> for the call the program
  makes (a \<open>str\<close> argument, the default \<open>scheme=''\<close> and
  \<open>allow_fragments=True\<close>). Two checks of \<open>urlsplit\<close> are not transcribed:
  \<^item> \<open>_check_bracketed_host\<close> hands a bracketed host to the \<open>ipaddress\<close> module;
    it is the parameter \<open>chk\<close>, which gives the message of the \<open>ValueError\<close> it
    raises, or \<open>None\<close> when it accepts the host;
  \<^item> \<open>_checknetloc\<close> raises only when the NFKC normal form of a non-ASCII netloc
    brings in one of \<open>/?#@:\<close>, which no code point below U+0100 does, so it never
    raises on a string of this model.
\<close>

record ParseResult =
  scheme :: string
  netloc :: string
  path :: string
  params :: string
  query :: string
  fragment :: string

definition uses_netloc :: "string list" where
  "uses_netloc = ['''', ''ftp'', ''http'', ''gopher'', ''nntp'', ''telnet'',
                  ''imap'', ''wais'', ''file'', ''mms'', ''https'', ''shttp'',
                  ''snews'', ''prospero'', ''rtsp'', ''rtsps'', ''rtspu'', ''rsync'',
                  ''svn'', ''svn+ssh'', ''sftp'', ''nfs'', ''git'', ''git+ssh'',
                  ''ws'', ''wss'']"

definition uses_params :: "string list" where
  "uses_params = ['''', ''ftp'', ''hdl'', ''prospero'', ''http'', ''imap'',
                  ''https'', ''shttp'', ''rtsp'', ''rtsps'', ''rtspu'', ''sip'',
                  ''sips'', ''mms'', ''sftp'', ''tel'']"

definition scheme_chars :: string where
  "scheme_chars = ascii_lower_chars @ ascii_upper_chars @ ''0123456789'' @ ''+-.''"

text \<open>\<open>_WHATWG_C0_CONTROL_OR_SPACE\<close>: the code points U+0000 to U+0020.\<close>

definition c0_control_or_space :: "char \<Rightarrow> bool" where
  "c0_control_or_space c = ((of_char c :: nat) \<le> 32)"

definition unsafe_url_bytes_to_remove :: string where
  "unsafe_url_bytes_to_remove = [CHR 0x09, CHR 0x0D, CHR 0x0A]"

text \<open>\<open>_splitnetloc(url, start)\<close>: the netloc ends at the first of \<open>/?#\<close>.\<close>

definition splitnetloc :: "string \<Rightarrow> nat \<Rightarrow> string \<times> string" where
  "splitnetloc url start =
     (let delim = fold (\<lambda>c delim. case str_find_from c url start of
                                     None \<Rightarrow> delim
                                   | Some wdelim \<Rightarrow> min delim wdelim)
                       ''/?#'' (length url)
      in (take (delim - start) (drop start url), drop delim url))"

text \<open>\<open>netloc.partition('[')[2].partition(']')[0]\<close>.\<close>

definition bracketed_host :: "string \<Rightarrow> string" where
  "bracketed_host nl =
     takeWhile (\<lambda>c. c \<noteq> CHR '']'') (drop 1 (dropWhile (\<lambda>c. c \<noteq> CHR ''['') nl))"

definition urlsplit ::
  "(string \<Rightarrow> string option) \<Rightarrow> string \<Rightarrow>
     py_exception + (string \<times> string \<times> string \<times> string \<times> string)" where
  "urlsplit chk url0 =
     (let url1 = dropWhile c0_control_or_space url0;
          url2 = filter (\<lambda>c. c \<notin> set unsafe_url_bytes_to_remove) url1;
          (scheme1, url3) =
             (case str_find CHR '':'' url2 of
                None \<Rightarrow> ([], url2)
              | Some i \<Rightarrow>
                  if 0 < i \<and> list_all (\<lambda>c. c \<in> set (ascii_lower_chars @ ascii_upper_chars))
                                     (take 1 url2)
                       \<and> list_all (\<lambda>c. c \<in> set scheme_chars) (take i url2)
                  then (map lower_char (take i url2), drop (Suc i) url2)
                  else ([], url2));
          (netloc1, url4) =
             (if take 2 url3 = ''//'' then splitnetloc url3 2 else ([], url3));
          has_open = (CHR ''['' \<in> set netloc1);
          has_close = (CHR '']'' \<in> set netloc1)
      in if take 2 url3 = ''//'' \<and> ((has_open \<and> \<not> has_close) \<or> (has_close \<and> \<not> has_open))
         then Inl (Raise ValueError ''Invalid IPv6 URL'')
         else case (if take 2 url3 = ''//'' \<and> has_open \<and> has_close
                    then chk (bracketed_host netloc1) else None) of
           Some msg \<Rightarrow> Inl (Raise ValueError msg)
         | None \<Rightarrow>
            (let (url5, fragment1) =
                   (if CHR ''#'' \<in> set url4 then split1 CHR ''#'' url4 else (url4, []));
                 (url6, query1) =
                   (if CHR ''?'' \<in> set url5 then split1 CHR ''?'' url5 else (url5, []))
             in Inr (scheme1, netloc1, url6, query1, fragment1)))"

definition splitparams :: "string \<Rightarrow> string \<times> string" where
  "splitparams url =
     (case str_rfind CHR ''/'' url of
        Some j \<Rightarrow>
          (case str_find_from CHR '';'' url j of
             None \<Rightarrow> (url, [])
           | Some i \<Rightarrow> (take i url, drop (Suc i) url))
      | None \<Rightarrow>
          (case str_find CHR '';'' url of
             None \<Rightarrow> (url, [])
           | Some i \<Rightarrow> (take i url, drop (Suc i) url)))"

definition urlparse :: "(string \<Rightarrow> string option) \<Rightarrow> string \<Rightarrow> py_exception + ParseResult" where
  "urlparse chk url0 =
     (case urlsplit chk url0 of
        Inl e \<Rightarrow> Inl e
      | Inr (scheme1, netloc1, url, query1, fragment1) \<Rightarrow>
          (let (url', params1) =
                 (if scheme1 \<in> set uses_params \<and> CHR '';'' \<in> set url
                  then splitparams url else (url, []))
           in Inr \<lparr>scheme = scheme1, netloc = netloc1, path = url', params = params1,
                    query = query1, fragment = fragment1\<rparr>))"

definition urlunsplit :: "string \<times> string \<times> string \<times> string \<times> string \<Rightarrow> string" where
  "urlunsplit components =
     (case components of (scheme1, netloc1, url0, query1, fragment1) \<Rightarrow>
        (let url1 = (if netloc1 \<noteq> [] \<or> (scheme1 \<noteq> [] \<and> scheme1 \<in> set uses_netloc)
                        \<or> take 2 url0 = ''//''
                     then ''//'' @ netloc1 @
                          (if url0 \<noteq> [] \<and> take 1 url0 \<noteq> ''/'' then ''/'' @ url0 else url0)
                     else url0);
             url2 = (if scheme1 \<noteq> [] then scheme1 @ '':'' @ url1 else url1);
             url3 = (if query1 \<noteq> [] then url2 @ ''?'' @ query1 else url2);
             url4 = (if fragment1 \<noteq> [] then url3 @ ''#'' @ fragment1 else url3)
         in url4))"

definition urlunparse :: "ParseResult \<Rightarrow> string" where
  "urlunparse p =
     (let url = (if params p \<noteq> [] then path p @ '';'' @ params p else path p)
      in urlunsplit (scheme p, netloc p, url, query p, fragment p))"

section \<open>\<open>build_llms_url\<close>\<close>

definition build_llms_url :: "(string \<Rightarrow> string option) \<Rightarrow> string \<Rightarrow> py_exception + string" where
  "build_llms_url chk base_url =
     (case urlparse chk base_url of
        Inl e \<Rightarrow> Inl e
      | Inr parsed \<Rightarrow>
          (let path1 = rstrip_chars ''/'' (path parsed);
               path2 = (if path1 \<noteq> [] then path1 @ ''/llms.txt'' else ''/llms.txt'')
           in Inr (urlunparse (parsed\<lparr>path := path2\<rparr>))))"

section \<open>\<open>check_single_domain\<close>\<close>

record DomainCheckResult =
  domain :: string
  url_checked :: string
  has_llms_txt :: bool
  http_status :: "int option"
  error :: "string option"

text \<open>\<open>Request(llms_url, method="GET", headers={"User-Agent": "llms-checker/1.0"})\<close>.
  The probe URL always starts with \<open>http:\<close> or \<open>https:\<close>, so the constructor does
  not raise.\<close>

record request =
  full_url :: string
  req_method :: string
  headers :: "(string \<times> string) list"

text \<open>
  What \<open>with urlopen(req, timeout=timeout) as resp\<close> does, as far as the program looks
  at it: it returns a response whose \<open>getcode()\<close> is an integer (or \<open>None\<close>, for a
  response that is not HTTP), or it raises \<open>HTTPError\<close> (with its \<open>code\<close> and
  \<open>msg\<close>), another \<open>URLError\<close> (given by \<open>str(e.reason)\<close>), or any other
  \<open>Exception\<close> (given by \<open>str(e)\<close>). \<open>KeyboardInterrupt\<close> and
  \<open>SystemExit\<close>, which no handler of the function catches, are left out.
\<close>

datatype urlopen_outcome =
    Returns "int option"
  | Raises_HTTPError int string
  | Raises_URLError string
  | Raises_Exception string

text \<open>\<open>str(e)\<close> of an \<open>HTTPError\<close>: \<open>'HTTP Error %s: %s' % (self.code, self.msg)\<close>.\<close>

definition str_HTTPError :: "int \<Rightarrow> string \<Rightarrow> string" where
  "str_HTTPError code msg = ''HTTP Error '' @ str_int code @ '': '' @ msg"

text \<open>\<open>str(e)\<close> of the \<open>TypeError\<close> that \<open>200 <= None\<close> raises.\<close>

definition str_TypeError_le_None :: string where
  "str_TypeError_le_None =
     [CHR 0x27] @ ''<='' @ [CHR 0x27] @ '' not supported between instances of '' @
     [CHR 0x27] @ ''int'' @ [CHR 0x27] @ '' and '' @ [CHR 0x27] @ ''NoneType'' @ [CHR 0x27]"

text \<open>
  The environment of a run. The network is a function of the calls made so far, the
  current one last, so that two probes of one URL may end differently; the file system
  gives, for a path, what opening and reading the file yields.
  \<^item> \<open>check_bracketed_host\<close>: \<open>urllib.parse._check_bracketed_host\<close> (see above);
  \<^item> \<open>urlopen\<close>: the outcome of the last call of the list;
  \<^item> \<open>read_text\<close>: the decoded text of the file, or the exception that
    \<open>open(path, "r", encoding="utf-8")\<close> or the decoding raises;
  \<^item> \<open>read_csv\<close>: the rows \<open>csv.reader\<close> yields over the file, one at a time, or
    the exception \<open>open\<close> raises;
  \<^item> \<open>open_write\<close>: the exception \<open>open(path, "w", ...)\<close> raises, if any.
\<close>

datatype csv_stream = End | Row "string list" csv_stream | Broken py_exception

type_synonym 't call = "request \<times> 't"

record 't env =
  check_bracketed_host :: "string \<Rightarrow> string option"
  urlopen :: "'t call list \<Rightarrow> urlopen_outcome"
  read_text :: "string \<Rightarrow> py_exception + string"
  read_csv :: "string \<Rightarrow> py_exception + csv_stream"
  open_write :: "string \<Rightarrow> py_exception option"

text \<open>The body of the \<open>try\<close> statement and its four handlers, by outcome of
  \<open>urlopen\<close>.\<close>

definition result_of_outcome :: "string \<Rightarrow> string \<Rightarrow> urlopen_outcome \<Rightarrow> DomainCheckResult" where
  "result_of_outcome dmn llms_url outcome =
     (case outcome of
        Returns (Some status) \<Rightarrow>
          (let has_llms = (200 \<le> status \<and> status < 300)
           in \<lparr>domain = dmn, url_checked = llms_url, has_llms_txt = has_llms,
                http_status = Some status, error = None\<rparr>)
      | Returns None \<Rightarrow>
          \<lparr>domain = dmn, url_checked = llms_url, has_llms_txt = False,
            http_status = None, error = Some str_TypeError_le_None\<rparr>
      | Raises_HTTPError status msg \<Rightarrow>
          (let has_llms = (200 \<le> status \<and> status < 300)
           in \<lparr>domain = dmn, url_checked = llms_url, has_llms_txt = has_llms,
                http_status = Some status,
                error = (if \<not> has_llms then Some (str_HTTPError status msg) else None)\<rparr>)
      | Raises_URLError reason \<Rightarrow>
          \<lparr>domain = dmn, url_checked = llms_url, has_llms_txt = False,
            http_status = None, error = Some reason\<rparr>
      | Raises_Exception e \<Rightarrow>
          \<lparr>domain = dmn, url_checked = llms_url, has_llms_txt = False,
            http_status = None, error = Some e\<rparr>)"

text \<open>\<open>check_single_domain(domain, timeout)\<close>, with the list of network calls made so
  far threaded through. Lines 52 to 64 stand before the \<open>try\<close>: an exception of
  \<open>build_llms_url\<close> leaves the function.\<close>

definition check_single_domain ::
  "'t env \<Rightarrow> 't call list \<Rightarrow> string \<Rightarrow> 't \<Rightarrow> py_exception + (DomainCheckResult \<times> 't call list)" where
  "check_single_domain E trace dmn timeout =
     (let base_url = normalize_domain dmn in
      if base_url = []
      then Inr (\<lparr>domain = dmn, url_checked = [], has_llms_txt = False,
                 http_status = None, error = Some ''empty_domain''\<rparr>, trace)
      else
        (case build_llms_url (check_bracketed_host E) base_url of
           Inl e \<Rightarrow> Inl e
         | Inr llms_url \<Rightarrow>
             (let req = \<lparr>full_url = llms_url, req_method = ''GET'',
                         headers = [(''User-Agent'', ''llms-checker/1.0'')]\<rparr>;
                  trace' = trace @ [(req, timeout)]
              in Inr (result_of_outcome dmn llms_url (urlopen E trace'), trace'))))"

section \<open>Input loaders\<close>

text \<open>\<open>for line in f\<close> on a file opened in text mode: the lines of the decoded text,
  each of \<open>\n\<close>, \<open>\r\n\<close> and \<open>\r\<close> ending a line and read as \<open>\n\<close>.\<close>

fun text_lines :: "string \<Rightarrow> string list" where
  "text_lines [] = []"
| "text_lines (c # cs) =
     (if c = CHR 0x0A then [CHR 0x0A] # text_lines cs
      else if c = CHR 0x0D
        then (case cs of
                [] \<Rightarrow> [[CHR 0x0A]]
              | c' # cs' \<Rightarrow> if c' = CHR 0x0A then [CHR 0x0A] # text_lines cs'
                           else [CHR 0x0A] # text_lines cs)
      else (case text_lines cs of
              [] \<Rightarrow> [[c]]
            | l # ls \<Rightarrow> (c # l) # ls))"

text \<open>The loop of \<open>load_domains\<close> over the lines, \<open>domains\<close> being the list built so
  far.\<close>

fun load_lines :: "string list \<Rightarrow> string list \<Rightarrow> string list" where
  "load_lines [] domains = domains"
| "load_lines (line # rest) domains =
     (let raw = strip line in
      if raw = [] \<or> startswith raw ''#'' then load_lines rest domains
      else load_lines rest (domains @ [raw]))"

definition load_domains :: "'t env \<Rightarrow> string \<Rightarrow> py_exception + string list" where
  "load_domains E path0 =
     (case read_text E path0 of
        Inl e \<Rightarrow> Inl e
      | Inr content \<Rightarrow> Inr (load_lines (text_lines content) []))"

text \<open>A row of \<open>csv.DictReader\<close>: \<open>dict(zip(fieldnames, row))\<close>, the surplus cells under
  the key \<open>None\<close>, the missing ones set to \<open>None\<close>.\<close>

datatype cell = Str string | Rest "string list" | NoneVal

definition dictreader_row :: "string list \<Rightarrow> string list \<Rightarrow> (string option \<rightharpoonup> cell)" where
  "dictreader_row fieldnames row =
     (let d = fold (\<lambda>(k, v) d. d(Some k \<mapsto> Str v)) (zip fieldnames row) Map.empty;
          lf = length fieldnames;
          lr = length row
      in if lf < lr then d(None \<mapsto> Rest (drop lf row))
         else if lf > lr then fold (\<lambda>k d. d(Some k \<mapsto> NoneVal)) (drop lr fieldnames) d
         else d)"

text \<open>\<open>(row.get(domain_column) or "").strip()\<close>.\<close>

definition row_domain :: "(string option \<rightharpoonup> cell) \<Rightarrow> string \<Rightarrow> string" where
  "row_domain d domain_column =
     strip (case d (Some domain_column) of Some (Str s) \<Rightarrow> s | _ \<Rightarrow> [])"

text \<open>The loop of \<open>load_domains_from_csv\<close> over the rows after the header;
  \<open>DictReader\<close> skips every empty row.\<close>

fun load_rows :: "string list \<Rightarrow> string \<Rightarrow> csv_stream \<Rightarrow> string list \<Rightarrow> py_exception + string list" where
  "load_rows fieldnames domain_column End domains = Inr domains"
| "load_rows fieldnames domain_column (Broken e) domains = Inl e"
| "load_rows fieldnames domain_column (Row row rest) domains =
     (if row = [] then load_rows fieldnames domain_column rest domains
      else (let raw = row_domain (dictreader_row fieldnames row) domain_column in
            if raw = [] then load_rows fieldnames domain_column rest domains
            else load_rows fieldnames domain_column rest (domains @ [raw])))"

definition missing_column_message :: "string \<Rightarrow> string list \<Rightarrow> string" where
  "missing_column_message domain_column fieldnames =
     ''CSV file does not contain a '' @ [CHR 0x27] @ domain_column @ [CHR 0x27] @
     '' column. Available columns: '' @ join '', '' fieldnames"

text \<open>\<open>reader.fieldnames\<close> is the first row the reader yields, \<open>None\<close> when there is
  none; the header check reads \<open>reader.fieldnames or []\<close>.\<close>

definition load_domains_from_csv :: "'t env \<Rightarrow> string \<Rightarrow> string \<Rightarrow> py_exception + string list" where
  "load_domains_from_csv E path0 domain_column =
     (case read_csv E path0 of
        Inl e \<Rightarrow> Inl e
      | Inr (Broken e) \<Rightarrow> Inl e
      | Inr End \<Rightarrow> Inl (Raise ValueError (missing_column_message domain_column []))
      | Inr (Row fieldnames rest) \<Rightarrow>
          if domain_column \<notin> set fieldnames
          then Inl (Raise ValueError (missing_column_message domain_column fieldnames))
          else load_rows fieldnames domain_column rest [])"

section \<open>Reporters\<close>

text \<open>\<open>csv.writer(csvfile).writerow(cells)\<close> with the default dialect: a field that
  holds the delimiter, the quote character or a character of the line terminator is
  quoted, its quote characters doubled; a row of one empty field is written as two
  quote characters; the row ends with \<open>\r\n\<close>.\<close>

definition csv_field :: "string \<Rightarrow> string" where
  "csv_field f =
     (if list_ex (\<lambda>c. c \<in> set [CHR '','', CHR 0x22, CHR 0x0D, CHR 0x0A]) f
      then [CHR 0x22] @ concat (map (\<lambda>c. if c = CHR 0x22 then [c, c] else [c]) f) @ [CHR 0x22]
      else f)"

definition csv_writerow :: "string list \<Rightarrow> string" where
  "csv_writerow cells =
     (if cells = [[]] then [CHR 0x22, CHR 0x22] else join '','' (map csv_field cells))
     @ [CHR 0x0D, CHR 0x0A]"

text \<open>The loop of \<open>write_csv\<close>, \<open>buf\<close> being what the file holds so far.\<close>

fun write_rows :: "DomainCheckResult list \<Rightarrow> string \<Rightarrow> string" where
  "write_rows [] buf = buf"
| "write_rows (r # rs) buf =
     write_rows rs (buf @ csv_writerow [domain r, if has_llms_txt r then ''yes'' else ''no''])"

text \<open>\<open>write_csv(results, output_path)\<close>: the text of the file written, or the
  exception of \<open>open\<close>.\<close>

definition write_csv :: "'t env \<Rightarrow> DomainCheckResult list \<Rightarrow> string \<Rightarrow> py_exception + string" where
  "write_csv E results output_path =
     (case open_write E output_path of
        Some e \<Rightarrow> Inl e
      | None \<Rightarrow> Inr (write_rows results (csv_writerow [''domain'', ''contains_llms_txt''])))"

text \<open>\<open>print_summary(results)\<close>: the strings printed, one per call of \<open>print\<close>.\<close>

definition summary_line :: "DomainCheckResult \<Rightarrow> string" where
  "summary_line r =
     (let status_str = (if has_llms_txt r then ''YES'' else ''NO'');
          extra = (case http_status r of
                     Some st \<Rightarrow> '' (HTTP '' @ str_int st @ '')''
                   | None \<Rightarrow>
                       (case error r of
                          None \<Rightarrow> []
                        | Some e \<Rightarrow> if e \<noteq> [] then '' (error: '' @ e @ '')'' else []))
      in domain r @ replicate (30 - length (domain r)) CHR '' '' @ '' -> llms.txt: ''
         @ status_str @ extra)"

definition print_summary :: "DomainCheckResult list \<Rightarrow> string list" where
  "print_summary results =
     (let total_in_results = length results;
          with_llms = length (filter has_llms_txt results);
          failed = filter (\<lambda>r. error r \<noteq> None \<and> http_status r = None) results
      in [''Total domains processed: '' @ str_nat total_in_results,
          ''Domains with llms.txt: '' @ str_nat with_llms,
          ''Domains that failed to check (no response): '' @ str_nat (length failed),
          [],
          ''Per-domain results:'',
          replicate 60 CHR ''-'']
         @ map summary_line results
         @ (if failed \<noteq> []
            then [[], ''Failed domains (unable to obtain):'']
                 @ map (\<lambda>r. ''- '' @ domain r @ '': '' @ (case error r of Some e \<Rightarrow> e | None \<Rightarrow> ''None''))
                       failed
            else []))"

section \<open>\<open>main\<close>\<close>

text \<open>The parsed command line (\<open>argparse\<close> itself is not modelled).\<close>

record 't args =
  input_file :: string
  output_csv :: "string option"
  timeout :: 't
  input_format :: string
  domain_column :: string

text \<open>How the process ends: \<open>sys.exit(n)\<close> or the return of \<open>main\<close> (status 0), or
  an exception that nothing catches (the interpreter prints a traceback, which is not
  modelled, and exits with status 1).\<close>

datatype ending = Exit nat | Uncaught py_exception

record 't run =
  ending :: ending
  stdout :: "string list"
  stderr :: "string list"
  calls :: "'t call list"
  written :: "(string \<times> string) list"

text \<open>The loop of \<open>main\<close> over the domains.\<close>

fun main_loop ::
  "'t env \<Rightarrow> 't \<Rightarrow> string list \<Rightarrow> DomainCheckResult list \<Rightarrow> 't call list \<Rightarrow>
     (py_exception \<times> 't call list) + (DomainCheckResult list \<times> 't call list)" where
  "main_loop E t [] results trace = Inr (results, trace)"
| "main_loop E t (d # ds) results trace =
     (case check_single_domain E trace d t of
        Inl e \<Rightarrow> Inl (e, trace)
      | Inr (r, trace') \<Rightarrow> main_loop E t ds (results @ [r]) trace')"

text \<open>The \<open>try\<close> block of \<open>main\<close>: the loader that \<open>--input-format\<close> selects.\<close>

definition load_input :: "'t env \<Rightarrow> 't args \<Rightarrow> py_exception + string list" where
  "load_input E a =
     (if input_format a = ''csv''
      then load_domains_from_csv E (input_file a) (domain_column a)
      else load_domains E (input_file a))"

definition main :: "'t env \<Rightarrow> 't args \<Rightarrow> 't run" where
  "main E a =
     (case load_input E a of
        Inl e \<Rightarrow>
          \<lparr>ending = Exit 1, stdout = [],
            stderr = [if exc_cls e = FileNotFoundError
                      then ''Input file not found: '' @ input_file a
                      else ''Error reading input file: '' @ exc_str e],
            calls = [], written = []\<rparr>
      | Inr domains \<Rightarrow>
          if domains = []
          then \<lparr>ending = Exit 1, stdout = [],
                 stderr = [''No domains found in the input file.''],
                 calls = [], written = []\<rparr>
          else
            (case main_loop E (timeout a) domains [] [] of
               Inl (e, trace) \<Rightarrow>
                 \<lparr>ending = Uncaught e, stdout = [], stderr = [], calls = trace, written = []\<rparr>
             | Inr (results, trace) \<Rightarrow>
                 (case output_csv a of
                    None \<Rightarrow>
                      \<lparr>ending = Exit 0, stdout = print_summary results, stderr = [],
                        calls = trace, written = []\<rparr>
                  | Some output_path \<Rightarrow>
                      if output_path = []
                      then \<lparr>ending = Exit 0, stdout = print_summary results, stderr = [],
                             calls = trace, written = []\<rparr>
                      else
                        (case write_csv E results output_path of
                           Inl e \<Rightarrow>
                             \<lparr>ending = Exit 0, stdout = print_summary results,
                               stderr = [''Failed to write CSV file: '' @ exc_str e],
                               calls = trace, written = []\<rparr>
                         | Inr content \<Rightarrow>
                             \<lparr>ending = Exit 0,
                               stdout = print_summary results
                                        @ [[], ''Results written to CSV: '' @ output_path],
                               stderr = [], calls = trace,
                               written = [(output_path, content)]\<rparr>))))"

section \<open>The specification's wording\<close>

text \<open>The specification of \<open>normalize_domain\<close>, as its text reads: trim; keep an
  \<open>http://\<close> or \<open>https://\<close> scheme or else prepend \<open>https://\<close>; strip a single
  trailing \<open>/\<close>.\<close>

definition strip_single_slash :: "string \<Rightarrow> string" where
  "strip_single_slash s = (if s \<noteq> [] \<and> last s = CHR ''/'' then butlast s else s)"

definition normalize_domain_spec :: "string \<Rightarrow> string" where
  "normalize_domain_spec domain0 =
     (let dmn = strip domain0 in
      if dmn = [] then []
      else if startswith dmn ''http://'' \<or> startswith dmn ''https://''
        then strip_single_slash dmn
      else ''https://'' @ strip_single_slash dmn)"

text \<open>The specification of the probe URL, as its text reads: the query string and the
  fragment are dropped, only scheme, host, port and path are kept.\<close>

definition build_llms_url_spec :: "(string \<Rightarrow> string option) \<Rightarrow> string \<Rightarrow> py_exception + string" where
  "build_llms_url_spec chk base_url =
     (case urlparse chk base_url of
        Inl e \<Rightarrow> Inl e
      | Inr parsed \<Rightarrow>
          Inr (urlunparse \<lparr>scheme = scheme parsed, netloc = netloc parsed,
                           path = rstrip_chars ''/'' (path parsed) @ ''/llms.txt'',
                           params = [], query = [], fragment = []\<rparr>))"

text \<open>The specification of the text loader: a line is kept when it is not empty after
  trimming and its first character that is not whitespace is not \<open>#\<close>.\<close>

definition usable_line :: "string \<Rightarrow> bool" where
  "usable_line line = (case dropWhile isspace line of [] \<Rightarrow> False | c # _ \<Rightarrow> c \<noteq> CHR ''#'')"

text \<open>The specification of the CSV report: a header row, then one row per result, the
  domain and \<open>yes\<close> or \<open>no\<close>.\<close>

definition csv_rows :: "DomainCheckResult list \<Rightarrow> string list list" where
  "csv_rows results =
     [''domain'', ''contains_llms_txt'']
     # map (\<lambda>r. [domain r, if has_llms_txt r then ''yes'' else ''no'']) results"

text \<open>A success status, and the contract of \<open>urllib\<close>'s default opener: its
  \<open>HTTPErrorProcessor\<close> hands every response whose status is not in \<open>[200, 300)\<close> to
  the error handlers, the last of which raises \<open>HTTPError\<close>, so \<open>urlopen\<close> returns
  only responses with a success status.\<close>

definition success_status :: "int \<Rightarrow> bool" where
  "success_status st = (200 \<le> st \<and> st < 300)"

definition default_opener :: "'t env \<Rightarrow> bool" where
  "default_opener E = (\<forall>tr st. urlopen E tr = Returns (Some st) \<longrightarrow> success_status st)"

section \<open>An example environment\<close>

text \<open>A network in which \<open>a.com\<close> serves the file, \<open>b.com\<close> answers 404 and no
  other host resolves; a text input with a line that is no URL, a text input with a
  comment and two domains, and a CSV input with no \<open>domain\<close> column.\<close>

definition accept_host :: "string \<Rightarrow> string option" where
  "accept_host host = None"

definition example_urlopen :: "real call list \<Rightarrow> urlopen_outcome" where
  "example_urlopen tr =
     (case rev tr of
        [] \<Rightarrow> Raises_Exception []
      | (req, t) # _ \<Rightarrow>
          if full_url req = ''https://a.com/llms.txt'' then Returns (Some 200)
          else if full_url req = ''https://b.com/llms.txt''
            then Raises_HTTPError 404 ''Not Found''
          else Raises_URLError ''[Errno -2] Name or service not known'')"

definition example_read_text :: "string \<Rightarrow> py_exception + string" where
  "example_read_text path0 =
     (if path0 = ''domains.txt''
      then Inr (''a.com'' @ [CHR 0x0A] @ ''['' @ [CHR 0x0A] @ ''b.com'' @ [CHR 0x0A])
      else if path0 = ''mocked.txt''
      then Inr (''# comment'' @ [CHR 0x0A, CHR 0x0A] @ ''a.com'' @ [CHR 0x0A] @ ''c.com''
                @ [CHR 0x0A])
      else Inl (Raise FileNotFoundError ''[Errno 2] No such file or directory''))"

definition example_read_csv :: "string \<Rightarrow> py_exception + csv_stream" where
  "example_read_csv path0 =
     (if path0 = ''domains.csv''
      then Inr (Row [''name'', ''url''] (Row [''A'', ''a.com''] End))
      else Inl (Raise FileNotFoundError ''[Errno 2] No such file or directory''))"

definition example_open_write :: "string \<Rightarrow> py_exception option" where
  "example_open_write path0 = None"

definition example_env :: "real env" where
  "example_env = \<lparr>check_bracketed_host = accept_host, urlopen = example_urlopen,
                    read_text = example_read_text, read_csv = example_read_csv,
                    open_write = example_open_write\<rparr>"

definition example_args :: "string \<Rightarrow> string \<Rightarrow> real args" where
  "example_args file fmt = \<lparr>input_file = file, output_csv = Some ''out.csv'', timeout = 5,
                             input_format = fmt, domain_column = ''domain''\<rparr>"

section \<open>Evaluation\<close>

lemmas str_defs =
  strip_def isspace_def startswith_def rstrip_chars_def str_find_def str_find_from_def
  str_rfind_def split1_def

lemmas url_defs =
  build_llms_url_def urlparse_def urlsplit_def urlunparse_def urlunsplit_def
  splitnetloc_def splitparams_def uses_params_def uses_netloc_def scheme_chars_def
  ascii_lower_chars_def ascii_upper_chars_def lower_char_def c0_control_or_space_def
  unsafe_url_bytes_to_remove_def bracketed_host_def

lemmas example_defs =
  example_env_def example_urlopen_def example_read_text_def example_read_csv_def
  example_open_write_def example_args_def accept_host_def

section \<open>Stripping\<close>

lemma takeWhile_slash:
  "takeWhile (\<lambda>c. c \<in> set ''/'') xs
     = replicate (length (takeWhile (\<lambda>c. c \<in> set ''/'') xs)) CHR ''/''"
  by (induction xs) auto

text \<open>\<open>rstrip("/")\<close> removes a run of slashes from the end, and the whole run.\<close>

lemma rstrip_slash_decomp:
  "s = rstrip_chars ''/'' s
         @ replicate (length (takeWhile (\<lambda>c. c \<in> set ''/'') (rev s))) CHR ''/''"
proof -
  let ?P = "\<lambda>c. c \<in> set ''/''"
  have "rev s = takeWhile ?P (rev s) @ dropWhile ?P (rev s)" by simp
  then have "s = rev (dropWhile ?P (rev s)) @ rev (takeWhile ?P (rev s))"
    by (metis rev_append rev_rev_ident)
  moreover have "rev (takeWhile ?P (rev s)) = replicate (length (takeWhile ?P (rev s))) CHR ''/''"
    by (subst takeWhile_slash) simp
  ultimately show ?thesis by (simp add: rstrip_chars_def)
qed

lemma rstrip_slash_last:
  assumes ne: "rstrip_chars ''/'' s \<noteq> []"
  shows "last (rstrip_chars ''/'' s) \<noteq> CHR ''/''"
proof -
  let ?P = "\<lambda>c. c \<in> set ''/''"
  let ?d = "dropWhile ?P (rev s)"
  from ne have d: "?d \<noteq> []" by (simp add: rstrip_chars_def)
  then have "\<not> ?P (hd ?d)" by (rule hd_dropWhile)
  moreover have "last (rev ?d) = hd ?d" using d by (simp add: last_rev)
  ultimately show ?thesis by (simp add: rstrip_chars_def)
qed

lemma rstrip_keeps_scheme:
  assumes "startswith s ''http://'' \<or> startswith s ''https://''"
  shows "rstrip_chars ''/'' s \<noteq> []"
proof
  assume e: "rstrip_chars ''/'' s = []"
  from rstrip_slash_decomp[of s] e obtain k where "s = replicate k CHR ''/''" by auto
  with assms show False
    by (cases k) (auto simp: startswith_def)
qed

section \<open>Claims about \<open>normalize_domain\<close> and \<open>build_llms_url\<close>\<close>

text \<open>
  C3, as the specification states it: \<open>normalize_domain\<close> strips exactly one trailing
  slash, so an input ending in several slashes keeps all but the last. The code calls
  \<open>rstrip("/")\<close>, which removes them all: on \<open>example.com//\<close> it gives
  \<open>https://example.com\<close>, where stripping a single slash gives
  \<open>https://example.com/\<close>.
\<close>

theorem normalize_domain_single_slash_counterexample:
  "normalize_domain ''example.com//'' = ''https://example.com'' \<and>
   normalize_domain_spec ''example.com//'' = ''https://example.com/'' \<and>
   normalize_domain ''example.com//'' \<noteq> normalize_domain_spec ''example.com//''"
  by (simp add: normalize_domain_def str_defs normalize_domain_spec_def strip_single_slash_def)

text \<open>
  C3, amended: for every input string, \<open>normalize_domain\<close> trims it; an empty trimmed
  input gives the empty string; a trimmed input that starts with \<open>http://\<close> or
  \<open>https://\<close> is returned with every trailing slash removed (the result is not empty
  and does not end in a slash); any other trimmed input has every trailing slash
  removed and \<open>https://\<close> prepended.
\<close>

theorem normalize_domain_strips_all:
  "(strip d = [] \<longrightarrow> normalize_domain d = []) \<and>
   (strip d \<noteq> [] \<and> (startswith (strip d) ''http://'' \<or> startswith (strip d) ''https://'') \<longrightarrow>
      (\<exists>k. strip d = normalize_domain d @ replicate k CHR ''/'')
      \<and> normalize_domain d \<noteq> [] \<and> last (normalize_domain d) \<noteq> CHR ''/'') \<and>
   (strip d \<noteq> [] \<and> \<not> (startswith (strip d) ''http://'' \<or> startswith (strip d) ''https://'') \<longrightarrow>
      (\<exists>body k. normalize_domain d = ''https://'' @ body
                 \<and> strip d = body @ replicate k CHR ''/''
                 \<and> (body = [] \<or> last body \<noteq> CHR ''/'')))"
proof (intro conjI impI)
  assume "strip d = []"
  then show "normalize_domain d = []" by (simp add: normalize_domain_def)
next
  assume a: "strip d \<noteq> [] \<and> (startswith (strip d) ''http://'' \<or> startswith (strip d) ''https://'')"
  then have n: "normalize_domain d = rstrip_chars ''/'' (strip d)"
    by (auto simp: normalize_domain_def Let_def)
  have ne: "rstrip_chars ''/'' (strip d) \<noteq> []" using a rstrip_keeps_scheme by blast
  show "\<exists>k. strip d = normalize_domain d @ replicate k CHR ''/''"
    unfolding n using rstrip_slash_decomp[of "strip d"] by blast
  show "normalize_domain d \<noteq> []" using ne n by simp
  show "last (normalize_domain d) \<noteq> CHR ''/''" using rstrip_slash_last[OF ne] n by simp
next
  assume a: "strip d \<noteq> [] \<and> \<not> (startswith (strip d) ''http://'' \<or> startswith (strip d) ''https://'')"
  then have n: "normalize_domain d = ''https://'' @ rstrip_chars ''/'' (strip d)"
    by (auto simp: normalize_domain_def Let_def)
  have l: "rstrip_chars ''/'' (strip d) = [] \<or> last (rstrip_chars ''/'' (strip d)) \<noteq> CHR ''/''"
    using rstrip_slash_last by blast
  show "\<exists>body k. normalize_domain d = ''https://'' @ body
                 \<and> strip d = body @ replicate k CHR ''/''
                 \<and> (body = [] \<or> last body \<noteq> CHR ''/'')"
    using n rstrip_slash_decomp[of "strip d"] l by blast
qed

theorem normalize_domain_strips_all_witness:
  "strip ''  http://example.com/base//  '' = ''http://example.com/base//'' \<and>
   startswith ''http://example.com/base//'' ''http://'' \<and>
   normalize_domain ''  http://example.com/base//  '' = ''http://example.com/base'' \<and>
   (\<exists>k. ''http://example.com/base//'' = ''http://example.com/base'' @ replicate k CHR ''/'')"
  using normalize_domain_strips_all [of "''  http://example.com/base//  ''"]
  by (simp add: normalize_domain_def str_defs)

text \<open>When the trimmed input is the scheme alone, stripping reaches into it.\<close>

lemma normalize_domain_bare_scheme: "normalize_domain ''https://'' = ''https:''"
  by (simp add: normalize_domain_def str_defs)

text \<open>\<open>urlunsplit\<close> puts the query and the fragment, when not empty, after the path.\<close>

lemma urlunsplit_shape:
  "\<exists>pre. urlunsplit (s, n, url, q, f)
      = pre @ url @ (if q = [] then [] else ''?'' @ q) @ (if f = [] then [] else ''#'' @ f)"
proof -
  let ?A = "n \<noteq> [] \<or> (s \<noteq> [] \<and> s \<in> set uses_netloc) \<or> take 2 url = ''//''"
  let ?pre = "(if s \<noteq> [] then s @ '':'' else [])
              @ (if ?A then ''//'' @ n @ (if url \<noteq> [] \<and> take 1 url \<noteq> ''/'' then ''/'' else [])
                 else [])"
  have "urlunsplit (s, n, url, q, f)
      = ?pre @ url @ (if q = [] then [] else ''?'' @ q) @ (if f = [] then [] else ''#'' @ f)"
    by (simp add: urlunsplit_def Let_def)
  then show ?thesis by blast
qed

text \<open>
  C2, as the specification states it: the probe URL drops the query string and the
  fragment of the base URL. The code replaces the path of the parsed URL and nothing
  else (\<open>parsed._replace(path=path)\<close>), so \<open>urlunparse\<close> writes the query and the
  fragment back: \<open>https://example.com/a?x=1#frag\<close> gives
  \<open>https://example.com/a/llms.txt?x=1#frag\<close>.
\<close>

theorem build_llms_url_drops_query_counterexample:
  "build_llms_url accept_host ''https://example.com/a?x=1#frag''
     = Inr ''https://example.com/a/llms.txt?x=1#frag'' \<and>
   build_llms_url_spec accept_host ''https://example.com/a?x=1#frag''
     = Inr ''https://example.com/a/llms.txt'' \<and>
   build_llms_url accept_host ''https://example.com/a?x=1#frag''
     \<noteq> build_llms_url_spec accept_host ''https://example.com/a?x=1#frag''"
  by (simp add: build_llms_url_spec_def str_defs url_defs)

text \<open>
  C2, amended: for every base URL that \<open>urlparse\<close> accepts, the probe URL is the
  base URL put together again from its scheme, netloc, params, query and fragment,
  all unchanged, and its path with the trailing slashes removed and \<open>/llms.txt\<close>
  appended; so the probe URL ends with \<open>/llms.txt\<close> followed by \<open>;params\<close>,
  \<open>?query\<close> and \<open>#fragment\<close>, each when the base URL has it.
\<close>

theorem build_llms_url_keeps_query:
  assumes "urlparse chk u = Inr p"
  shows "build_llms_url chk u
           = Inr (urlunparse \<lparr>scheme = scheme p, netloc = netloc p,
                              path = rstrip_chars ''/'' (path p) @ ''/llms.txt'',
                              params = params p, query = query p, fragment = fragment p\<rparr>)
         \<and> (\<exists>pre. build_llms_url chk u
               = Inr (pre @ ''/llms.txt''
                      @ (if params p = [] then [] else '';'' @ params p)
                      @ (if query p = [] then [] else ''?'' @ query p)
                      @ (if fragment p = [] then [] else ''#'' @ fragment p)))"
proof -
  let ?np = "rstrip_chars ''/'' (path p) @ ''/llms.txt''"
  let ?p' = "\<lparr>scheme = scheme p, netloc = netloc p, path = ?np,
               params = params p, query = query p, fragment = fragment p\<rparr>"
  have b: "build_llms_url chk u = Inr (urlunparse ?p')"
    using assms by (cases p) (simp add: build_llms_url_def Let_def)
  let ?url = "?np @ (if params p = [] then [] else '';'' @ params p)"
  have u: "urlunparse ?p' = urlunsplit (scheme p, netloc p, ?url, query p, fragment p)"
    by (simp add: urlunparse_def Let_def)
  obtain pre where "urlunsplit (scheme p, netloc p, ?url, query p, fragment p)
      = pre @ ?url @ (if query p = [] then [] else ''?'' @ query p)
            @ (if fragment p = [] then [] else ''#'' @ fragment p)"
    using urlunsplit_shape by blast
  then have "urlunparse ?p' = (pre @ rstrip_chars ''/'' (path p)) @ ''/llms.txt''
                      @ (if params p = [] then [] else '';'' @ params p)
                      @ (if query p = [] then [] else ''?'' @ query p)
                      @ (if fragment p = [] then [] else ''#'' @ fragment p)"
    using u by simp
  with b show ?thesis by metis
qed

theorem build_llms_url_keeps_query_witness:
  "urlparse accept_host ''https://example.com/a/?x=1#frag''
     = Inr \<lparr>scheme = ''https'', netloc = ''example.com'', path = ''/a/'', params = [],
            query = ''x=1'', fragment = ''frag''\<rparr>
   \<and> build_llms_url accept_host ''https://example.com/a/?x=1#frag''
     = Inr ''https://example.com/a/llms.txt?x=1#frag''"
proof -
  have p: "urlparse accept_host ''https://example.com/a/?x=1#frag''
     = Inr \<lparr>scheme = ''https'', netloc = ''example.com'', path = ''/a/'', params = [],
            query = ''x=1'', fragment = ''frag''\<rparr>"
    by (simp add: str_defs url_defs)
  show ?thesis
    using build_llms_url_keeps_query [OF p] p
    by (simp add: urlunparse_def urlunsplit_def uses_netloc_def rstrip_chars_def)
qed

text \<open>
  C8: normalising \<open>example.com\<close> and building the probe URL gives
  \<open>https://example.com/llms.txt\<close>; normalising \<open>https://example.com/base/\<close> and
  building the probe URL gives \<open>https://example.com/base/llms.txt\<close>.
\<close>

theorem probe_url_examples:
  "build_llms_url chk (normalize_domain ''example.com'') = Inr ''https://example.com/llms.txt'' \<and>
   build_llms_url chk (normalize_domain ''https://example.com/base/'')
     = Inr ''https://example.com/base/llms.txt''"
  by (simp add: normalize_domain_def str_defs url_defs)

section \<open>Claims about \<open>check_single_domain\<close>\<close>

text \<open>
  C1 states that \<open>check_single_domain\<close> returns a result for every domain and never
  lets an exception out. The probe URL is built before the \<open>try\<close> statement: on the
  domain \<open>[\<close> the base URL is \<open>https://[\<close>, \<open>urlsplit\<close> raises
  \<open>ValueError("Invalid IPv6 URL")\<close>, and the exception leaves the function, whatever
  the network and the timeout.
\<close>

theorem check_single_domain_raises:
  "check_single_domain E tr ''['' t = Inl (Raise ValueError ''Invalid IPv6 URL'')"
  by (simp add: check_single_domain_def normalize_domain_def str_defs url_defs)

text \<open>Three probes in the example environment.\<close>

lemma check_a_com:
  "check_single_domain example_env [] ''a.com'' 5
     = Inr (\<lparr>domain = ''a.com'', url_checked = ''https://a.com/llms.txt'', has_llms_txt = True,
              http_status = Some 200, error = None\<rparr>,
            [(\<lparr>full_url = ''https://a.com/llms.txt'', req_method = ''GET'',
                headers = [(''User-Agent'', ''llms-checker/1.0'')]\<rparr>, 5)])"
  by (simp add: check_single_domain_def normalize_domain_def str_defs url_defs
                result_of_outcome_def example_defs)

lemma check_b_com:
  "check_single_domain example_env [] ''b.com'' 5
     = Inr (\<lparr>domain = ''b.com'', url_checked = ''https://b.com/llms.txt'', has_llms_txt = False,
              http_status = Some 404, error = Some ''HTTP Error 404: Not Found''\<rparr>,
            [(\<lparr>full_url = ''https://b.com/llms.txt'', req_method = ''GET'',
                headers = [(''User-Agent'', ''llms-checker/1.0'')]\<rparr>, 5)])"
  by (simp add: check_single_domain_def normalize_domain_def str_defs url_defs
                result_of_outcome_def example_defs str_HTTPError_def str_int_def
                str_nat.simps digit_char_def)

lemma check_c_com:
  "check_single_domain example_env tr ''c.com'' 5
     = Inr (\<lparr>domain = ''c.com'', url_checked = ''https://c.com/llms.txt'', has_llms_txt = False,
              http_status = None, error = Some ''[Errno -2] Name or service not known''\<rparr>,
            tr @ [(\<lparr>full_url = ''https://c.com/llms.txt'', req_method = ''GET'',
                headers = [(''User-Agent'', ''llms-checker/1.0'')]\<rparr>, 5)])"
  by (simp add: check_single_domain_def normalize_domain_def str_defs url_defs
                result_of_outcome_def example_defs)

lemma check_c_com_nil:
  "check_single_domain example_env [] ''c.com'' 5
     = Inr (\<lparr>domain = ''c.com'', url_checked = ''https://c.com/llms.txt'', has_llms_txt = False,
              http_status = None, error = Some ''[Errno -2] Name or service not known''\<rparr>,
            [(\<lparr>full_url = ''https://c.com/llms.txt'', req_method = ''GET'',
                headers = [(''User-Agent'', ''llms-checker/1.0'')]\<rparr>, 5)])"
  using check_c_com[of "[]"] by simp

lemma example_default_opener: "default_opener example_env"
  by (auto simp: default_opener_def example_env_def example_urlopen_def
           success_status_def split: list.splits prod.splits if_splits)

text \<open>
  C4: in every result that \<open>check_single_domain\<close> returns, \<open>has_llms_txt\<close> is true
  if and only if \<open>http_status\<close> is present and at least 200 and less than 300; a result
  with no \<open>http_status\<close> has \<open>has_llms_txt\<close> false.
\<close>

theorem has_llms_txt_iff_success:
  assumes "check_single_domain E tr d t = Inr (r, tr')"
  shows "has_llms_txt r = (case http_status r of None \<Rightarrow> False | Some st \<Rightarrow> 200 \<le> st \<and> st < 300)
         \<and> (http_status r = None \<longrightarrow> \<not> has_llms_txt r)"
  using assms
  by (auto simp: check_single_domain_def result_of_outcome_def Let_def
           split: if_splits sum.splits urlopen_outcome.splits option.splits)

theorem has_llms_txt_iff_success_witness:
  "check_single_domain example_env [] ''a.com'' 5
     = Inr (\<lparr>domain = ''a.com'', url_checked = ''https://a.com/llms.txt'', has_llms_txt = True,
              http_status = Some 200, error = None\<rparr>,
            [(\<lparr>full_url = ''https://a.com/llms.txt'', req_method = ''GET'',
                headers = [(''User-Agent'', ''llms-checker/1.0'')]\<rparr>, 5)])
   \<and> has_llms_txt \<lparr>domain = ''a.com'', url_checked = ''https://a.com/llms.txt'',
                     has_llms_txt = True, http_status = Some 200, error = None\<rparr>"
  using has_llms_txt_iff_success [OF check_a_com] check_a_com by simp

text \<open>
  C5: in every result that \<open>check_single_domain\<close> returns, \<open>error\<close> is present if and
  only if no success status was obtained, and the result is fixed by the outcome of
  the probe:
  \<^item> for an empty domain no probe is made, there is no status and \<open>error\<close> is
    \<open>empty_domain\<close>;
  \<^item> a returned response has a status in range, which is recorded, and no \<open>error\<close>;
  \<^item> an \<open>HTTPError\<close> has its status recorded, and \<open>error\<close> is absent when the
    status is in range and is the description of the \<open>HTTPError\<close> when it is not;
  \<^item> a \<open>URLError\<close>, and any other exception, leaves no status and \<open>error\<close> is the
    description of the failure.

  The statement is about \<open>urlopen\<close> as \<open>urllib\<close> provides it (\<open>default_opener\<close>): a
  status out of range reaches the program as an \<open>HTTPError\<close>, never as a returned
  response. The branch of line 66 to 76 sets no \<open>error\<close>, whatever the status
  (\<open>normal_return_without_success\<close> below); \<open>urllib\<close> never enters it with a status
  out of range.
\<close>

theorem error_iff_no_success:
  assumes opener: "default_opener E"
      and res: "check_single_domain E tr d t = Inr (r, tr')"
  shows "(error r \<noteq> None) = (\<not> (\<exists>st. http_status r = Some st \<and> success_status st))
       \<and> (normalize_domain d = [] \<longrightarrow>
             tr' = tr
             \<and> r = \<lparr>domain = d, url_checked = [], has_llms_txt = False, http_status = None,
                     error = Some ''empty_domain''\<rparr>)
       \<and> (normalize_domain d \<noteq> [] \<longrightarrow>
             (\<exists>u. build_llms_url (check_bracketed_host E) (normalize_domain d) = Inr u
                  \<and> tr' = tr @ [(\<lparr>full_url = u, req_method = ''GET'',
                                    headers = [(''User-Agent'', ''llms-checker/1.0'')]\<rparr>, t)]
                  \<and> domain r = d \<and> url_checked r = u)
           \<and> (\<forall>st. urlopen E tr' = Returns (Some st) \<longrightarrow>
                  success_status st \<and> http_status r = Some st \<and> has_llms_txt r
                  \<and> error r = None)
           \<and> (urlopen E tr' = Returns None \<longrightarrow>
                  http_status r = None \<and> \<not> has_llms_txt r
                  \<and> error r = Some str_TypeError_le_None)
           \<and> (\<forall>st msg. urlopen E tr' = Raises_HTTPError st msg \<longrightarrow>
                  http_status r = Some st \<and> has_llms_txt r = success_status st
                  \<and> error r = (if success_status st then None
                                else Some (str_HTTPError st msg)))
           \<and> (\<forall>reason. urlopen E tr' = Raises_URLError reason \<longrightarrow>
                  http_status r = None \<and> \<not> has_llms_txt r \<and> error r = Some reason)
           \<and> (\<forall>e. urlopen E tr' = Raises_Exception e \<longrightarrow>
                  http_status r = None \<and> \<not> has_llms_txt r \<and> error r = Some e))"
proof (cases "normalize_domain d = []")
  case True
  with res have "r = \<lparr>domain = d, url_checked = [], has_llms_txt = False,
                       http_status = None, error = Some ''empty_domain''\<rparr>" and "tr' = tr"
    by (simp_all add: check_single_domain_def)
  with True show ?thesis by simp
next
  case False
  with res obtain u where u: "build_llms_url (check_bracketed_host E) (normalize_domain d) = Inr u"
    and tr': "tr' = tr @ [(\<lparr>full_url = u, req_method = ''GET'',
                            headers = [(''User-Agent'', ''llms-checker/1.0'')]\<rparr>, t)]"
    and r: "r = result_of_outcome d u (urlopen E tr')"
    by (auto simp: check_single_domain_def Let_def split: sum.splits)
  have ok: "\<And>st. urlopen E tr' = Returns (Some st) \<Longrightarrow> success_status st"
    using opener by (simp add: default_opener_def)
  have du: "domain r = d \<and> url_checked r = u"
    unfolding r by (simp add: result_of_outcome_def split: urlopen_outcome.splits option.splits)
  have head: "\<exists>u. build_llms_url (check_bracketed_host E) (normalize_domain d) = Inr u
                  \<and> tr' = tr @ [(\<lparr>full_url = u, req_method = ''GET'',
                                    headers = [(''User-Agent'', ''llms-checker/1.0'')]\<rparr>, t)]
                  \<and> domain r = d \<and> url_checked r = u"
    using u tr' du by blast
  show ?thesis
  proof (cases "urlopen E tr'")
    case (Returns x)
    show ?thesis
    proof (cases x)
      case None
      with Returns r have "http_status r = None" "\<not> has_llms_txt r"
          "error r = Some str_TypeError_le_None"
        by (simp_all add: result_of_outcome_def)
      with Returns None False head show ?thesis by simp
    next
      case (Some st)
      with Returns ok have s: "success_status st" by simp
      with Returns Some r have "http_status r = Some st" "has_llms_txt r" "error r = None"
        by (simp_all add: result_of_outcome_def success_status_def)
      with Returns Some False head s show ?thesis by simp
    qed
  next
    case (Raises_HTTPError st msg)
    with r have "http_status r = Some st" "has_llms_txt r = success_status st"
        "error r = (if success_status st then None else Some (str_HTTPError st msg))"
      by (simp_all add: result_of_outcome_def success_status_def)
    with Raises_HTTPError False head show ?thesis by simp
  next
    case (Raises_URLError reason)
    with r have "http_status r = None" "\<not> has_llms_txt r" "error r = Some reason"
      by (simp_all add: result_of_outcome_def)
    with Raises_URLError False head show ?thesis by simp
  next
    case (Raises_Exception e)
    with r have "http_status r = None" "\<not> has_llms_txt r" "error r = Some e"
      by (simp_all add: result_of_outcome_def)
    with Raises_Exception False head show ?thesis by simp
  qed
qed

theorem error_iff_no_success_witness:
  "default_opener example_env
   \<and> check_single_domain example_env [] ''b.com'' 5
     = Inr (\<lparr>domain = ''b.com'', url_checked = ''https://b.com/llms.txt'', has_llms_txt = False,
              http_status = Some 404, error = Some ''HTTP Error 404: Not Found''\<rparr>,
            [(\<lparr>full_url = ''https://b.com/llms.txt'', req_method = ''GET'',
                headers = [(''User-Agent'', ''llms-checker/1.0'')]\<rparr>, 5)])
   \<and> normalize_domain ''b.com'' \<noteq> []
   \<and> urlopen example_env
        [(\<lparr>full_url = ''https://b.com/llms.txt'', req_method = ''GET'',
            headers = [(''User-Agent'', ''llms-checker/1.0'')]\<rparr>, 5)]
      = Raises_HTTPError 404 ''Not Found''
   \<and> \<not> success_status 404
   \<and> str_HTTPError 404 ''Not Found'' = ''HTTP Error 404: Not Found''
   \<and> check_single_domain example_env [] ''c.com'' 5
     = Inr (\<lparr>domain = ''c.com'', url_checked = ''https://c.com/llms.txt'', has_llms_txt = False,
              http_status = None, error = Some ''[Errno -2] Name or service not known''\<rparr>,
            [(\<lparr>full_url = ''https://c.com/llms.txt'', req_method = ''GET'',
                headers = [(''User-Agent'', ''llms-checker/1.0'')]\<rparr>, 5)])
   \<and> normalize_domain ''c.com'' \<noteq> []
   \<and> urlopen example_env
        [(\<lparr>full_url = ''https://c.com/llms.txt'', req_method = ''GET'',
            headers = [(''User-Agent'', ''llms-checker/1.0'')]\<rparr>, 5)]
      = Raises_URLError ''[Errno -2] Name or service not known''"
  using error_iff_no_success [OF example_default_opener check_b_com]
        error_iff_no_success [OF example_default_opener check_c_com_nil]
        example_default_opener check_b_com check_c_com_nil
  by (simp add: success_status_def example_env_def example_urlopen_def normalize_domain_def
                str_defs str_HTTPError_def str_int_def str_nat.simps digit_char_def)

lemma normal_return_without_success:
  "result_of_outcome d u (Returns (Some 404))
     = \<lparr>domain = d, url_checked = u, has_llms_txt = False, http_status = Some 404,
         error = None\<rparr>"
  by (simp add: result_of_outcome_def)

section \<open>Claims about the loaders\<close>

text \<open>What \<open>strip\<close> leaves starts with the first character that is not whitespace.\<close>

lemma strip_head:
  assumes "dropWhile isspace l = c # xs"
  shows "\<exists>ys. strip l = c # ys"
proof -
  have nc: "\<not> isspace c" using assms hd_dropWhile[of isspace l] by simp
  have "dropWhile isspace (rev xs @ [c])
          = (if \<forall>x\<in>set (rev xs). isspace x then [c] else dropWhile isspace (rev xs) @ [c])"
    using nc by (simp add: dropWhile_append)
  then obtain zs where zs: "dropWhile isspace (rev (c # xs)) = zs @ [c]"
    by (metis append_Nil rev.simps(2))
  have "strip l = rev (dropWhile isspace (rev (c # xs)))"
    unfolding strip_def assms ..
  also have "\<dots> = c # rev zs" unfolding zs by simp
  finally show ?thesis by blast
qed

lemma usable_line_iff:
  "usable_line l = (\<not> (strip l = [] \<or> startswith (strip l) ''#''))"
proof (cases "dropWhile isspace l")
  case Nil
  have "strip l = []" unfolding strip_def Nil by simp
  then show ?thesis unfolding usable_line_def Nil by simp
next
  case (Cons c xs)
  then obtain ys where "strip l = c # ys" using strip_head by blast
  with Cons show ?thesis by (simp add: usable_line_def startswith_def)
qed

lemma load_lines_acc:
  "load_lines ls acc = acc @ map strip (filter usable_line ls)"
  by (induction ls arbitrary: acc) (auto simp: usable_line_iff Let_def)

text \<open>
  C9: the text loader returns the trimmed lines that are not empty after trimming and
  whose first character that is not whitespace is not \<open>#\<close>, in the order of the file
  (or the exception of reading the file); the lines \<open># comment\<close>, the empty line,
  \<open>a.com\<close> and \<open>b.com\<close> load as \<open>a.com\<close>, \<open>b.com\<close>.
\<close>

theorem load_domains_usable_lines:
  "load_lines ls [] = map strip (filter usable_line ls)
   \<and> load_domains E p = (case read_text E p of
                           Inl e \<Rightarrow> Inl e
                         | Inr content \<Rightarrow> Inr (map strip (filter usable_line (text_lines content))))
   \<and> load_lines [''# comment'', [], ''a.com'', ''b.com''] [] = [''a.com'', ''b.com'']
   \<and> load_lines (text_lines (''# comment'' @ [CHR 0x0A, CHR 0x0A] @ ''a.com'' @ [CHR 0x0A]
                              @ ''b.com'' @ [CHR 0x0A])) [] = [''a.com'', ''b.com'']"
proof -
  have "load_lines [''# comment'', [], ''a.com'', ''b.com''] [] = [''a.com'', ''b.com'']"
    by (simp add: str_defs)
  moreover have "load_lines (text_lines (''# comment'' @ [CHR 0x0A, CHR 0x0A] @ ''a.com''
                   @ [CHR 0x0A] @ ''b.com'' @ [CHR 0x0A])) [] = [''a.com'', ''b.com'']"
    by (simp add: str_defs)
  ultimately show ?thesis
    by (simp add: load_lines_acc load_domains_def split: sum.splits)
qed

text \<open>
  C7: when the first row of a CSV input does not hold the configured domain column,
  loading raises a \<open>ValueError\<close> whose message lists the columns of that row, and the
  run ends with status 1, the message on standard error, before any network call and
  with no file written.
\<close>

theorem missing_column_is_fatal:
  assumes "input_format a = ''csv''"
      and "read_csv E (input_file a) = Inr (Row header rest)"
      and "domain_column a \<notin> set header"
  shows "load_domains_from_csv E (input_file a) (domain_column a)
           = Inl (Raise ValueError
                   (''CSV file does not contain a '' @ [CHR 0x27] @ domain_column a @ [CHR 0x27]
                    @ '' column. Available columns: '' @ join '', '' header))
       \<and> main E a = \<lparr>ending = Exit 1, stdout = [],
                       stderr = [''Error reading input file: CSV file does not contain a ''
                                 @ [CHR 0x27] @ domain_column a @ [CHR 0x27]
                                 @ '' column. Available columns: '' @ join '', '' header],
                       calls = [], written = []\<rparr>"
  using assms
  by (simp add: main_def load_input_def load_domains_from_csv_def missing_column_message_def)

theorem missing_column_is_fatal_witness:
  "input_format (example_args ''domains.csv'' ''csv'') = ''csv''
   \<and> read_csv example_env ''domains.csv'' = Inr (Row [''name'', ''url''] (Row [''A'', ''a.com''] End))
   \<and> ''domain'' \<notin> set [''name'', ''url'']
   \<and> main example_env (example_args ''domains.csv'' ''csv'')
      = \<lparr>ending = Exit 1, stdout = [],
          stderr = [''Error reading input file: CSV file does not contain a ''
                    @ [CHR 0x27] @ ''domain'' @ [CHR 0x27]
                    @ '' column. Available columns: name, url''],
          calls = [], written = []\<rparr>"
  using missing_column_is_fatal [of "example_args ''domains.csv'' ''csv''" example_env
          "[''name'', ''url'']" "Row [''A'', ''a.com''] End"]
  by (simp add: example_defs)

section \<open>Claims about the CSV report\<close>

lemma write_rows_acc:
  "write_rows rs buf
     = buf @ concat (map (\<lambda>r. csv_writerow [domain r, if has_llms_txt r then ''yes'' else ''no'']) rs)"
  by (induction rs arbitrary: buf) auto

text \<open>The file written is the header row and then one row per result, in order.\<close>

lemma write_csv_rows:
  "write_csv E rs p = (case open_write E p of Some e \<Rightarrow> Inl e
                       | None \<Rightarrow> Inr (concat (map csv_writerow (csv_rows rs))))"
  by (simp add: write_csv_def write_rows_acc csv_rows_def comp_def split: option.splits)

text \<open>
  C10: two lists of results of the same length that agree, entry by entry, on
  \<open>domain\<close> and \<open>has_llms_txt\<close> give the same CSV file (or the same exception of
  \<open>open\<close>); so a domain that answered 404 and one that failed at the network level
  give the same file.
\<close>

theorem write_csv_depends_only_on_domain_and_flag:
  "(length rs1 = length rs2
    \<and> (\<forall>i < length rs1. domain (rs1 ! i) = domain (rs2 ! i)
                        \<and> has_llms_txt (rs1 ! i) = has_llms_txt (rs2 ! i))
    \<longrightarrow> write_csv E rs1 p = write_csv E rs2 p)
   \<and> write_csv E [result_of_outcome d u (Raises_HTTPError 404 msg)] p
     = write_csv E [result_of_outcome d u (Raises_URLError reason)] p"
proof (intro conjI impI)
  assume a: "length rs1 = length rs2
    \<and> (\<forall>i < length rs1. domain (rs1 ! i) = domain (rs2 ! i)
                        \<and> has_llms_txt (rs1 ! i) = has_llms_txt (rs2 ! i))"
  let ?f = "\<lambda>r. [domain r, if has_llms_txt r then ''yes'' else ''no'']"
  have "map ?f rs1 = map ?f rs2"
    using a by (intro nth_equalityI) auto
  then have "csv_rows rs1 = csv_rows rs2" by (simp add: csv_rows_def)
  then show "write_csv E rs1 p = write_csv E rs2 p" by (simp only: write_csv_rows)
next
  show "write_csv E [result_of_outcome d u (Raises_HTTPError 404 msg)] p
     = write_csv E [result_of_outcome d u (Raises_URLError reason)] p"
    by (simp add: write_csv_def result_of_outcome_def split: option.splits)
qed

theorem write_csv_depends_only_on_domain_and_flag_witness:
  "length [\<lparr>domain = ''b.com'', url_checked = ''https://b.com/llms.txt'', has_llms_txt = False,
             http_status = Some 404, error = Some ''HTTP Error 404: Not Found''\<rparr>]
     = length [\<lparr>domain = ''b.com'', url_checked = ''https://b.com/llms.txt'', has_llms_txt = False,
                http_status = None, error = Some ''timed out''\<rparr>]
   \<and> write_csv example_env
        [\<lparr>domain = ''b.com'', url_checked = ''https://b.com/llms.txt'', has_llms_txt = False,
           http_status = Some 404, error = Some ''HTTP Error 404: Not Found''\<rparr>] ''out.csv''
     = write_csv example_env
        [\<lparr>domain = ''b.com'', url_checked = ''https://b.com/llms.txt'', has_llms_txt = False,
           http_status = None, error = Some ''timed out''\<rparr>] ''out.csv''
   \<and> write_csv example_env
        [\<lparr>domain = ''b.com'', url_checked = ''https://b.com/llms.txt'', has_llms_txt = False,
           http_status = None, error = Some ''timed out''\<rparr>] ''out.csv''
     = Inr (''domain,contains_llms_txt'' @ [CHR 0x0D, CHR 0x0A] @ ''b.com,no'' @ [CHR 0x0D, CHR 0x0A])"
  using write_csv_depends_only_on_domain_and_flag
    [of "[\<lparr>domain = ''b.com'', url_checked = ''https://b.com/llms.txt'', has_llms_txt = False,
             http_status = Some 404, error = Some ''HTTP Error 404: Not Found''\<rparr>]"
        "[\<lparr>domain = ''b.com'', url_checked = ''https://b.com/llms.txt'', has_llms_txt = False,
             http_status = None, error = Some ''timed out''\<rparr>]"
        example_env "''out.csv''"]
  by (simp add: write_csv_def example_defs csv_writerow_def csv_field_def)

section \<open>Claims about the pipeline\<close>

lemma check_single_domain_domain:
  "check_single_domain E tr d t = Inr (r, tr') \<Longrightarrow> domain r = d"
  by (auto simp: check_single_domain_def result_of_outcome_def Let_def
           split: if_splits sum.splits urlopen_outcome.splits option.splits)

text \<open>\<open>check_single_domain\<close> raises exactly when building the probe URL raises.\<close>

lemma check_single_domain_raises_iff:
  "(check_single_domain E tr d t = Inl e)
     = (normalize_domain d \<noteq> []
        \<and> build_llms_url (check_bracketed_host E) (normalize_domain d) = Inl e)"
  by (auto simp: check_single_domain_def Let_def split: sum.splits)

text \<open>When the loop of \<open>main\<close> ends, it has one result per domain, in order.\<close>

lemma main_loop_domains:
  "main_loop E t ds rs tr = Inr (rs', tr') \<Longrightarrow> map domain rs' = map domain rs @ ds"
proof (induction ds arbitrary: rs tr)
  case Nil
  then show ?case by simp
next
  case (Cons d ds)
  from Cons.prems obtain r tr1 where c: "check_single_domain E tr d t = Inr (r, tr1)"
    and l: "main_loop E t ds (rs @ [r]) tr1 = Inr (rs', tr')"
    by (auto split: sum.splits)
  from Cons.IH[OF l] check_single_domain_domain[OF c] show ?case by simp
qed

text \<open>The loop is left by an exception exactly when the probe URL of one of the
  domains cannot be built.\<close>

lemma main_loop_raises_iff:
  "(\<exists>e tr'. main_loop E t ds rs tr = Inl (e, tr'))
     = (\<exists>d \<in> set ds. normalize_domain d \<noteq> []
          \<and> (\<exists>e. build_llms_url (check_bracketed_host E) (normalize_domain d) = Inl e))"
proof (induction ds arbitrary: rs tr)
  case Nil
  then show ?case by simp
next
  case (Cons d ds)
  show ?case
  proof (cases "check_single_domain E tr d t")
    case (Inl e)
    then show ?thesis using check_single_domain_raises_iff[of E tr d t e] by auto
  next
    case (Inr x)
    obtain r tr1 where x: "x = (r, tr1)" by (cases x)
    have "\<not> (normalize_domain d \<noteq> []
          \<and> (\<exists>e. build_llms_url (check_bracketed_host E) (normalize_domain d) = Inl e))"
      using Inr check_single_domain_raises_iff[of E tr d t] by auto
    then show ?thesis using Inr x Cons.IH[of "rs @ [r]" tr1] by auto
  qed
qed

text \<open>A run that the loop completes reports every domain, in order, and writes the
  header row and one row per domain.\<close>

lemma main_reports_each_domain:
  assumes "load_input E a = Inr ds" and "ds \<noteq> []"
      and "main_loop E (timeout a) ds [] [] = Inr (rs, tr)"
      and "output_csv a = Some p" and "p \<noteq> []" and "open_write E p = None"
  shows "map domain rs = ds
       \<and> ending (main E a) = Exit 0
       \<and> written (main E a) = [(p, concat (map csv_writerow (csv_rows rs)))]"
  using assms main_loop_domains[OF assms(3)]
  by (simp add: main_def write_csv_rows)

text \<open>
  C6 states that the pipeline produces one result per usable domain, in order, and a
  CSV row for each. The loop of \<open>main\<close> has no handler around \<open>check_single_domain\<close>:
  with the usable domains \<open>a.com\<close>, \<open>[\<close>, \<open>b.com\<close> the run probes \<open>a.com\<close>, then
  ends by the uncaught \<open>ValueError\<close> of the second domain, with no summary, no probe
  of \<open>b.com\<close> and no CSV file.
\<close>

theorem main_aborts_on_unparsable_domain:
  "load_domains example_env ''domains.txt'' = Inr [''a.com'', ''['', ''b.com'']
   \<and> main example_env (example_args ''domains.txt'' ''text'')
     = \<lparr>ending = Uncaught (Raise ValueError ''Invalid IPv6 URL''), stdout = [], stderr = [],
         calls = [(\<lparr>full_url = ''https://a.com/llms.txt'', req_method = ''GET'',
                     headers = [(''User-Agent'', ''llms-checker/1.0'')]\<rparr>, 5)],
         written = []\<rparr>"
proof -
  have l: "load_domains example_env ''domains.txt'' = Inr [''a.com'', ''['', ''b.com'']"
    by (simp add: load_domains_def example_defs str_defs)
  have c: "check_single_domain example_env tr ''['' 5 = Inl (Raise ValueError ''Invalid IPv6 URL'')" for tr
    by (simp add: check_single_domain_def normalize_domain_def str_defs url_defs)
  show ?thesis
    using l by (simp add: main_def load_input_def example_args_def check_a_com c)
qed

text \<open>The run of the specification's example: a mocked network that returns 200 for
  \<open>a.com\<close> and fails to connect to \<open>c.com\<close>.\<close>

lemma main_mocked_run:
  "main example_env (example_args ''mocked.txt'' ''text'')
     = \<lparr>ending = Exit 0,
    stdout =
      [''Total domains processed: 2'', ''Domains with llms.txt: 1'',
       ''Domains that failed to check (no response): 1'', [],
       ''Per-domain results:'',
       ''------------------------------------------------------------'',
       ''a.com                          -> llms.txt: YES (HTTP 200)'',
       ''c.com                          -> llms.txt: NO (error: [Errno -2] Name or service not known)'',
       [], ''Failed domains (unable to obtain):'',
       ''- c.com: [Errno -2] Name or service not known'', [],
       ''Results written to CSV: out.csv''],
    stderr = [],
    calls =
      [(\<lparr>full_url = ''https://a.com/llms.txt'', req_method = ''GET'',
           headers = [(''User-Agent'', ''llms-checker/1.0'')]\<rparr>, 5),
       (\<lparr>full_url = ''https://c.com/llms.txt'', req_method = ''GET'',
           headers = [(''User-Agent'', ''llms-checker/1.0'')]\<rparr>, 5)],
    written =
      [(''out.csv'', ''domain,contains_llms_txt'' @ [CHR 0x0D, CHR 0x0A]
                     @ ''a.com,yes'' @ [CHR 0x0D, CHR 0x0A]
                     @ ''c.com,no'' @ [CHR 0x0D, CHR 0x0A])]\<rparr>"
proof -
  have l: "load_domains example_env ''mocked.txt'' = Inr [''a.com'', ''c.com'']"
    by (simp add: load_domains_def example_defs str_defs)
  have n: "str_nat (Suc 0) = ''1''" "str_nat (Suc (Suc 0)) = ''2''" "str_int 200 = ''200''"
    by (simp_all add: str_nat.simps str_int_def digit_char_def)
  have p: "replicate 60 CHR ''-'' = ''------------------------------------------------------------''"
          "replicate 25 CHR '' '' = ''                         ''"
    by code_simp+
  have m: "main_loop example_env 5 [''a.com'', ''c.com''] [] []
      = Inr ([\<lparr>domain = ''a.com'', url_checked = ''https://a.com/llms.txt'', has_llms_txt = True,
                http_status = Some 200, error = None\<rparr>,
              \<lparr>domain = ''c.com'', url_checked = ''https://c.com/llms.txt'', has_llms_txt = False,
                http_status = None, error = Some ''[Errno -2] Name or service not known''\<rparr>],
             [(\<lparr>full_url = ''https://a.com/llms.txt'', req_method = ''GET'',
                 headers = [(''User-Agent'', ''llms-checker/1.0'')]\<rparr>, 5),
              (\<lparr>full_url = ''https://c.com/llms.txt'', req_method = ''GET'',
                 headers = [(''User-Agent'', ''llms-checker/1.0'')]\<rparr>, 5)])"
    by (simp add: check_a_com check_c_com)
  have w: "write_csv example_env
             [\<lparr>domain = ''a.com'', url_checked = ''https://a.com/llms.txt'', has_llms_txt = True,
                http_status = Some 200, error = None\<rparr>,
              \<lparr>domain = ''c.com'', url_checked = ''https://c.com/llms.txt'', has_llms_txt = False,
                http_status = None, error = Some ''[Errno -2] Name or service not known''\<rparr>]
             ''out.csv''
      = Inr (''domain,contains_llms_txt'' @ [CHR 0x0D, CHR 0x0A]
             @ ''a.com,yes'' @ [CHR 0x0D, CHR 0x0A] @ ''c.com,no'' @ [CHR 0x0D, CHR 0x0A])"
    by (simp add: write_csv_def example_env_def example_open_write_def csv_writerow_def
                  csv_field_def)
  show ?thesis
    using l m w
    by (simp add: main_def load_input_def example_args_def print_summary_def
                  summary_line_def n p)
qed

section \<open>Which domains make the probe URL fail\<close>

text \<open>\<open>urlsplit\<close> as transcribed above raises only on a netloc with a square bracket,
  and every character of the netloc is one of the URL; so a domain without square
  brackets always gets a result, and a list of such domains gets one result each.
  This holds for the strings of this model, code points below U+0100, where
  \<open>_checknetloc\<close> cannot raise: on a netloc with a code point such as U+2100, whose
  NFKC form holds a \<open>/\<close>, \<open>urlsplit\<close> raises a \<open>ValueError\<close> as well, and the
  exception leaves \<open>check_single_domain\<close> the same way.\<close>

lemma set_strip: "set (strip s) \<subseteq> set s"
  by (auto simp: strip_def dest!: set_dropWhileD)

lemma set_rstrip: "set (rstrip_chars cs s) \<subseteq> set s"
  by (auto simp: rstrip_chars_def dest!: set_dropWhileD)

lemma set_normalize_domain: "set (normalize_domain d) \<subseteq> set d \<union> set ''https://''"
  using set_strip[of d] set_rstrip[of "''/''" "strip d"]
  by (auto simp: normalize_domain_def Let_def)

lemma splitnetloc_set: "splitnetloc url k = (n, r) \<Longrightarrow> set n \<subseteq> set url"
  by (auto simp: splitnetloc_def Let_def dest: in_set_takeD in_set_dropD)

lemma urlsplit_unfold:
  assumes "url2 = filter (\<lambda>c. c \<notin> set unsafe_url_bytes_to_remove) (dropWhile c0_control_or_space u)"
      and "(case str_find CHR '':'' url2 of
                None \<Rightarrow> ([], url2)
              | Some i \<Rightarrow>
                  if 0 < i \<and> list_all (\<lambda>c. c \<in> set (ascii_lower_chars @ ascii_upper_chars))
                                     (take 1 url2)
                       \<and> list_all (\<lambda>c. c \<in> set scheme_chars) (take i url2)
                  then (map lower_char (take i url2), drop (Suc i) url2)
                  else ([], url2)) = (scheme1, url3)"
      and "(if take 2 url3 = ''//'' then splitnetloc url3 2 else ([], url3)) = (netloc1, url4)"
  shows "urlsplit chk u =
      (if take 2 url3 = ''//'' \<and> ((CHR ''['' \<in> set netloc1 \<and> CHR '']'' \<notin> set netloc1)
                                 \<or> (CHR '']'' \<in> set netloc1 \<and> CHR ''['' \<notin> set netloc1))
         then Inl (Raise ValueError ''Invalid IPv6 URL'')
         else case (if take 2 url3 = ''//'' \<and> CHR ''['' \<in> set netloc1 \<and> CHR '']'' \<in> set netloc1
                    then chk (bracketed_host netloc1) else None) of
           Some msg \<Rightarrow> Inl (Raise ValueError msg)
         | None \<Rightarrow>
            (let (url5, fragment1) =
                   (if CHR ''#'' \<in> set url4 then split1 CHR ''#'' url4 else (url4, []));
                 (url6, query1) =
                   (if CHR ''?'' \<in> set url5 then split1 CHR ''?'' url5 else (url5, []))
             in Inr (scheme1, netloc1, url6, query1, fragment1)))"
  unfolding urlsplit_def Let_def assms(1)[symmetric] assms(2) prod.case assms(3) ..

lemma urlsplit_returns:
  assumes "CHR ''['' \<notin> set u" and "CHR '']'' \<notin> set u"
  shows "\<exists>r. urlsplit chk u = Inr r"
proof -
  define url2 where "url2 = filter (\<lambda>c. c \<notin> set unsafe_url_bytes_to_remove) (dropWhile c0_control_or_space u)"
  have s2: "set url2 \<subseteq> set u" unfolding url2_def by (auto dest!: set_dropWhileD)
  obtain scheme1 url3 where su: "(case str_find CHR '':'' url2 of
                None \<Rightarrow> ([], url2)
              | Some i \<Rightarrow>
                  if 0 < i \<and> list_all (\<lambda>c. c \<in> set (ascii_lower_chars @ ascii_upper_chars))
                                     (take 1 url2)
                       \<and> list_all (\<lambda>c. c \<in> set scheme_chars) (take i url2)
                  then (map lower_char (take i url2), drop (Suc i) url2)
                  else ([], url2)) = (scheme1, url3)"
    by (meson surj_pair)
  have s3: "set url3 \<subseteq> set url2"
    using su by (auto split: option.splits if_splits dest: in_set_dropD)
  obtain netloc1 url4 where
    nu: "(if take 2 url3 = ''//'' then splitnetloc url3 2 else ([], url3)) = (netloc1, url4)"
    by (meson surj_pair)
  have s4: "set netloc1 \<subseteq> set url3"
    using nu splitnetloc_set[of url3 2 netloc1 url4] by (auto split: if_splits)
  have nb: "CHR ''['' \<notin> set netloc1" "CHR '']'' \<notin> set netloc1"
    using assms s2 s3 s4 by auto
  show ?thesis
    unfolding urlsplit_unfold[OF url2_def su nu]
    using nb by (auto simp: Let_def split: prod.splits)
qed

lemma build_llms_url_returns:
  assumes "CHR ''['' \<notin> set u" and "CHR '']'' \<notin> set u"
  shows "\<exists>r. build_llms_url chk u = Inr r"
proof -
  obtain r where "urlsplit chk u = Inr r" using urlsplit_returns[OF assms] by blast
  then show ?thesis
    by (auto simp: build_llms_url_def urlparse_def Let_def split: prod.splits)
qed

lemma check_single_domain_returns:
  assumes "CHR ''['' \<notin> set d" and "CHR '']'' \<notin> set d"
  shows "\<exists>r tr'. check_single_domain E tr d t = Inr (r, tr')"
proof -
  have "CHR ''['' \<notin> set (normalize_domain d)" "CHR '']'' \<notin> set (normalize_domain d)"
    using assms set_normalize_domain[of d] by auto
  then obtain u where "build_llms_url (check_bracketed_host E) (normalize_domain d) = Inr u"
    using build_llms_url_returns by blast
  then show ?thesis by (simp add: check_single_domain_def Let_def)
qed

lemma main_loop_returns:
  assumes "\<forall>d \<in> set ds. CHR ''['' \<notin> set d \<and> CHR '']'' \<notin> set d"
  shows "\<exists>rs' tr'. main_loop E t ds rs tr = Inr (rs', tr') \<and> map domain rs' = map domain rs @ ds"
  using assms
proof (induction ds arbitrary: rs tr)
  case Nil
  then show ?case by simp
next
  case (Cons d ds)
  then obtain r tr1 where c: "check_single_domain E tr d t = Inr (r, tr1)"
    using check_single_domain_returns[of d E tr t] by auto
  from Cons obtain rs' tr' where l: "main_loop E t ds (rs @ [r]) tr1 = Inr (rs', tr')"
    by (metis list.set_intros(2))
  show ?case using c l main_loop_domains[OF l] check_single_domain_domain[OF c] by simp
qed

section \<open>Trimming\<close>

text \<open>\<open>strip\<close> removes a run of whitespace at each end, and each whole run.\<close>

lemma strip_spec:
  "\<exists>l r. s = l @ strip s @ r \<and> list_all isspace l \<and> list_all isspace r
         \<and> (strip s = [] \<or> (\<not> isspace (hd (strip s)) \<and> \<not> isspace (last (strip s))))"
proof -
  let ?l = "takeWhile isspace s"
  let ?m = "dropWhile isspace s"
  let ?r = "rev (takeWhile isspace (rev ?m))"
  have m: "?m = strip s @ ?r"
  proof -
    have "rev ?m = takeWhile isspace (rev ?m) @ dropWhile isspace (rev ?m)" by simp
    then have "?m = rev (dropWhile isspace (rev ?m)) @ rev (takeWhile isspace (rev ?m))"
      by (metis rev_append rev_rev_ident)
    then show ?thesis by (simp add: strip_def)
  qed
  have s: "s = ?l @ strip s @ ?r" using m by (metis takeWhile_dropWhile_id)
  have l: "list_all isspace ?l" unfolding list_all_iff by (auto dest: set_takeWhileD)
  have r: "list_all isspace ?r" unfolding list_all_iff by (auto dest: set_takeWhileD)
  have e: "strip s = [] \<or> (\<not> isspace (hd (strip s)) \<and> \<not> isspace (last (strip s)))"
  proof (cases ?m)
    case Nil
    have "strip s = []" unfolding strip_def Nil by simp
    then show ?thesis by simp
  next
    case (Cons c xs)
    then obtain ys where ys: "strip s = c # ys" using strip_head by blast
    have nc: "\<not> isspace c" using Cons hd_dropWhile[of isspace s] by simp
    have d: "dropWhile isspace (rev ?m) \<noteq> []" using ys unfolding strip_def by auto
    then have "\<not> isspace (hd (dropWhile isspace (rev ?m)))" by (rule hd_dropWhile)
    then have "\<not> isspace (last (strip s))" using d by (simp add: strip_def last_rev)
    then show ?thesis using ys nc by simp
  qed
  from s l r e show ?thesis by blast
qed

end
